theory Spec2Isabelle
  imports Complex_Main
begin

section \<open>Numbers\<close>

text \<open>
  The program computes on C++ \<^verbatim>\<open>double\<close> values. Two models of them are used.

  In the exact model a \<^verbatim>\<open>double\<close> is a \<^typ>\<open>real\<close> and the arithmetic is exact. It is the
  arithmetic of the algebraic properties of the vector and ray operations. Two things
  have no value in it, and a result of type \<open>fault + 'a\<close> says so: reading \<^verbatim>\<open>e[i]\<close>
  outside the array of three components (undefined behaviour in C++, with no check in
  the code) is \<open>Out_Of_Bounds\<close>; a quotient with divisor zero is \<open>Not_Finite\<close>. The second is
  no error of the program, which goes on with an infinity or a NaN: it marks where the
  exact model ends.

  In the binary64 model (the sections on binary64 arithmetic below) a \<^verbatim>\<open>double\<close> is a
  value of the type \<open>dbl\<close>, with signed zeros, infinities and NaN, and every operation
  rounds to the nearest double, ties to even. This is what the compiled program
  computes; the properties that depend on rounding or on division by zero are stated
  in it.

  An \<^verbatim>\<open>int\<close> is modelled by \<^typ>\<open>int\<close>; the code only compares and prints it.
\<close>

datatype fault = Out_Of_Bounds | Not_Finite

text \<open>
  The quotient \<^verbatim>\<open>a / b\<close> of two doubles in the exact model (\<open>dbl_div\<close> in the binary64
  model).
\<close>

definition double_div :: "real \<Rightarrow> real \<Rightarrow> fault + real" where
  "double_div a b = (if b = 0 then Inl Not_Finite else Inr (a / b))"

section \<open>Vec3.cpp: the class vec3\<close>

text \<open>
  \<^verbatim>\<open>double e[3]\<close> is the only data member (the constructors initialise \<^verbatim>\<open>e{e0, e1, e2}\<close>).
  The three cells of the array are the three fields of the record.
\<close>

record vec3 =
  e0 :: real
  e1 :: real
  e2 :: real

text \<open>\<^verbatim>\<open>vec3::vec3() : e{0,0,0} {}\<close>\<close>

definition vec3_default :: vec3 where
  "vec3_default = \<lparr>e0 = 0, e1 = 0, e2 = 0\<rparr>"

text \<open>\<^verbatim>\<open>vec3::vec3(double e0, double e1, double e2) : e{e0, e1, e2} {}\<close>\<close>

definition vec3_new :: "real \<Rightarrow> real \<Rightarrow> real \<Rightarrow> vec3" where
  "vec3_new a b c = \<lparr>e0 = a, e1 = b, e2 = c\<rparr>"

text \<open>
  The subscript \<^verbatim>\<open>e[i]\<close> with a run-time index: the cells 0, 1 and 2 exist, any other
  index is out of bounds.
\<close>

definition e_at :: "vec3 \<Rightarrow> int \<Rightarrow> fault + real" where
  "e_at v i =
     (if i = 0 then Inr (e0 v)
      else if i = 1 then Inr (e1 v)
      else if i = 2 then Inr (e2 v)
      else Inl Out_Of_Bounds)"

text \<open>The store \<^verbatim>\<open>e[i] = c\<close> with a run-time index.\<close>

definition e_store :: "vec3 \<Rightarrow> int \<Rightarrow> real \<Rightarrow> fault + vec3" where
  "e_store v i c =
     (if i = 0 then Inr (v\<lparr>e0 := c\<rparr>)
      else if i = 1 then Inr (v\<lparr>e1 := c\<rparr>)
      else if i = 2 then Inr (v\<lparr>e2 := c\<rparr>)
      else Inl Out_Of_Bounds)"

text \<open>\<^verbatim>\<open>double vec3::x() const { return e[0]; }\<close>, and the same for y and z.\<close>

definition vec3_x :: "vec3 \<Rightarrow> real" where
  "vec3_x v = e0 v"

definition vec3_y :: "vec3 \<Rightarrow> real" where
  "vec3_y v = e1 v"

definition vec3_z :: "vec3 \<Rightarrow> real" where
  "vec3_z v = e2 v"

text \<open>\<^verbatim>\<open>vec3 vec3::operator-() const { return vec3(-e[0], -e[1], -e[2]); }\<close>\<close>

definition operator_neg :: "vec3 \<Rightarrow> vec3" where
  "operator_neg v = vec3_new (- e0 v) (- e1 v) (- e2 v)"

text \<open>\<^verbatim>\<open>double vec3::operator[](int i) const { return e[i]; }\<close>\<close>

definition operator_index_const :: "vec3 \<Rightarrow> int \<Rightarrow> fault + real" where
  "operator_index_const v i = e_at v i"

text \<open>
  \<^verbatim>\<open>double &vec3::operator[](int i) { return e[i]; }\<close> returns a reference into the
  receiver. A reference is modelled by the index of the cell it designates; reading
  through it is \<open>ref_read\<close>, assigning through it is \<open>ref_write\<close>, which gives the
  receiver after the assignment.
\<close>

datatype cell_ref = Cell int

definition operator_index :: "vec3 \<Rightarrow> int \<Rightarrow> fault + cell_ref" where
  "operator_index v i = (case e_at v i of Inl f \<Rightarrow> Inl f | Inr _ \<Rightarrow> Inr (Cell i))"

fun ref_read :: "vec3 \<Rightarrow> cell_ref \<Rightarrow> fault + real" where
  "ref_read v (Cell i) = e_at v i"

fun ref_write :: "vec3 \<Rightarrow> cell_ref \<Rightarrow> real \<Rightarrow> fault + vec3" where
  "ref_write v (Cell i) c = e_store v i c"

text \<open>
  The compound assignments change the receiver and return \<^verbatim>\<open>*this\<close>: the function gives
  the receiver after the call.
  \<^verbatim>\<open>e[0] += v.e[0]; e[1] += v.e[1]; e[2] += v.e[2]; return *this;\<close>
\<close>

definition operator_plus_assign :: "vec3 \<Rightarrow> vec3 \<Rightarrow> vec3" where
  "operator_plus_assign this v =
     this\<lparr>e0 := e0 this + e0 v, e1 := e1 this + e1 v, e2 := e2 this + e2 v\<rparr>"

text \<open>\<^verbatim>\<open>e[0] *= t; e[1] *= t; e[2] *= t; return *this;\<close>\<close>

definition operator_times_assign :: "vec3 \<Rightarrow> real \<Rightarrow> vec3" where
  "operator_times_assign this t =
     this\<lparr>e0 := e0 this * t, e1 := e1 this * t, e2 := e2 this * t\<rparr>"

text \<open>\<^verbatim>\<open>return *this *= 1/t;\<close>\<close>

definition operator_divide_assign :: "vec3 \<Rightarrow> real \<Rightarrow> fault + vec3" where
  "operator_divide_assign this t =
     (case double_div 1 t of
        Inl f \<Rightarrow> Inl f
      | Inr r \<Rightarrow> Inr (operator_times_assign this r))"

text \<open>\<^verbatim>\<open>return e[0]*e[0] + e[1]*e[1] + e[2]*e[2];\<close>\<close>

definition length_squared :: "vec3 \<Rightarrow> real" where
  "length_squared v = e0 v * e0 v + e1 v * e1 v + e2 v * e2 v"

text \<open>\<^verbatim>\<open>return std::sqrt(length_squared());\<close>\<close>

definition vec3_length :: "vec3 \<Rightarrow> real" where
  "vec3_length v = sqrt (length_squared v)"

text \<open>
  The uses of a vec3 object through the public members of Vec3.cpp. A call is a value of
  \<open>vec3_call\<close>; \<open>Call_index_assign i c\<close> is the statement \<^verbatim>\<open>v[i] = c\<close>, an assignment
  through the reference that the non-const \<^verbatim>\<open>operator[]\<close> returns. \<open>vec3_after\<close> is the
  receiver after the call. The member functions declared \<^verbatim>\<open>const\<close> assign to no cell
  of \<^verbatim>\<open>e\<close>. A result \<open>Inl\<close> is a call on which the exact model ends: an index out of
  range, or \<^verbatim>\<open>v /= 0\<close>, after which the receiver holds infinities or NaNs
  (\<open>operator_divide_assign_d\<close> in the binary64 model).
\<close>

datatype vec3_call =
    Call_x
  | Call_y
  | Call_z
  | Call_neg
  | Call_index_const int
  | Call_index_assign int real
  | Call_plus_assign vec3
  | Call_times_assign real
  | Call_divide_assign real
  | Call_length
  | Call_length_squared

fun vec3_after :: "vec3_call \<Rightarrow> vec3 \<Rightarrow> fault + vec3" where
  "vec3_after Call_x v = Inr v"
| "vec3_after Call_y v = Inr v"
| "vec3_after Call_z v = Inr v"
| "vec3_after Call_neg v = Inr v"
| "vec3_after (Call_index_const i) v =
     (case operator_index_const v i of Inl f \<Rightarrow> Inl f | Inr _ \<Rightarrow> Inr v)"
| "vec3_after (Call_index_assign i c) v =
     (case operator_index v i of Inl f \<Rightarrow> Inl f | Inr p \<Rightarrow> ref_write v p c)"
| "vec3_after (Call_plus_assign u) v = Inr (operator_plus_assign v u)"
| "vec3_after (Call_times_assign t) v = Inr (operator_times_assign v t)"
| "vec3_after (Call_divide_assign t) v = operator_divide_assign v t"
| "vec3_after Call_length v = Inr v"
| "vec3_after Call_length_squared v = Inr v"

text \<open>The calls of a member function declared \<^verbatim>\<open>const\<close>.\<close>

fun const_call :: "vec3_call \<Rightarrow> bool" where
  "const_call (Call_index_assign i c) = False"
| "const_call (Call_plus_assign u) = False"
| "const_call (Call_times_assign t) = False"
| "const_call (Call_divide_assign t) = False"
| "const_call c = True"

text \<open>The calls of \<^verbatim>\<open>operator+=\<close>, \<^verbatim>\<open>operator*=\<close> and \<^verbatim>\<open>operator/=\<close>.\<close>

fun compound_assignment :: "vec3_call \<Rightarrow> bool" where
  "compound_assignment (Call_plus_assign u) = True"
| "compound_assignment (Call_times_assign t) = True"
| "compound_assignment (Call_divide_assign t) = True"
| "compound_assignment c = False"

fun index_assignment :: "vec3_call \<Rightarrow> bool" where
  "index_assignment (Call_index_assign i c) = True"
| "index_assignment c = False"

text \<open>The index that a call passes to \<^verbatim>\<open>operator[]\<close>, if it passes one, is 0, 1 or 2.\<close>

fun index_in_range :: "vec3_call \<Rightarrow> bool" where
  "index_in_range (Call_index_const i) = (0 \<le> i \<and> i \<le> 2)"
| "index_in_range (Call_index_assign i c) = (0 \<le> i \<and> i \<le> 2)"
| "index_in_range c = True"

text \<open>
  Division of every component by \<open>t\<close>, as the words "in-place scalar division" say it;
  the code multiplies by the reciprocal instead (\<open>operator_divide_assign\<close>).
\<close>

definition divide_componentwise :: "vec3 \<Rightarrow> real \<Rightarrow> vec3" where
  "divide_componentwise v t = v\<lparr>e0 := e0 v / t, e1 := e1 v / t, e2 := e2 v / t\<rparr>"

section \<open>Vec3.h: the free operators\<close>

text \<open>
  Modelled from the spec: the header Vec3.h, which declares the class and defines the
  free operators, is not among the sources. The spec lists the free operations
  vector+vector, vector-vector and scalar*vector as pure arithmetic returning new values;
  they are taken component by component.
\<close>

definition operator_plus :: "vec3 \<Rightarrow> vec3 \<Rightarrow> vec3" where
  "operator_plus u v = vec3_new (e0 u + e0 v) (e1 u + e1 v) (e2 u + e2 v)"

definition operator_minus :: "vec3 \<Rightarrow> vec3 \<Rightarrow> vec3" where
  "operator_minus u v = vec3_new (e0 u - e0 v) (e1 u - e1 v) (e2 u - e2 v)"

definition operator_times :: "real \<Rightarrow> vec3 \<Rightarrow> vec3" where
  "operator_times t v = vec3_new (t * e0 v) (t * e1 v) (t * e2 v)"

section \<open>Ray.h: the class Ray\<close>

text \<open>The private members \<^verbatim>\<open>vec3 orig; vec3 dir;\<close>\<close>

record Ray =
  orig :: vec3
  dir :: vec3

text \<open>
  \<^verbatim>\<open>Ray() = default;\<close> default-initialises both members, each by \<^verbatim>\<open>vec3::vec3()\<close>.
\<close>

definition Ray_default :: Ray where
  "Ray_default = \<lparr>orig = vec3_default, dir = vec3_default\<rparr>"

text \<open>\<^verbatim>\<open>Ray(const vec3& origin, const vec3& direction) : orig(origin), dir(direction) {}\<close>\<close>

definition Ray_new :: "vec3 \<Rightarrow> vec3 \<Rightarrow> Ray" where
  "Ray_new origin direction = \<lparr>orig = origin, dir = direction\<rparr>"

text \<open>\<^verbatim>\<open>const vec3& origin() const { return orig; }\<close>\<close>

definition origin :: "Ray \<Rightarrow> vec3" where
  "origin r = orig r"

text \<open>\<^verbatim>\<open>const vec3& direction() const { return dir; }\<close>\<close>

definition direction :: "Ray \<Rightarrow> vec3" where
  "direction r = dir r"

text \<open>\<^verbatim>\<open>vec3 at(double t) const { return orig + t*dir; }\<close>\<close>

definition ray_at :: "Ray \<Rightarrow> real \<Rightarrow> vec3" where
  "ray_at r t = operator_plus (orig r) (operator_times t (dir r))"

text \<open>
  The public member functions of a constructed Ray are \<^verbatim>\<open>origin\<close>, \<^verbatim>\<open>direction\<close> and
  \<^verbatim>\<open>at\<close>. All three are \<^verbatim>\<open>const\<close> and their bodies assign to no member, so the
  receiver after a call is the receiver before it. A call is a value of \<open>ray_call\<close>;
  \<open>ray_result\<close> is what the call returns and \<open>ray_after\<close> the receiver afterwards.
\<close>

datatype ray_call = Call_origin | Call_direction | Call_at real

fun ray_result :: "ray_call \<Rightarrow> Ray \<Rightarrow> vec3" where
  "ray_result Call_origin r = origin r"
| "ray_result Call_direction r = direction r"
| "ray_result (Call_at t) r = ray_at r t"

fun ray_after :: "ray_call \<Rightarrow> Ray \<Rightarrow> Ray" where
  "ray_after Call_origin r = r"
| "ray_after Call_direction r = r"
| "ray_after (Call_at t) r = r"

text \<open>A sequence of calls on one Ray object, first call first.\<close>

fun ray_after_all :: "ray_call list \<Rightarrow> Ray \<Rightarrow> Ray" where
  "ray_after_all [] r = r"
| "ray_after_all (c # cs) r = ray_after_all cs (ray_after c r)"

section \<open>Color.h: writing a colour\<close>

text \<open>
  \<^verbatim>\<open>using color = vec3;\<close> and the declaration
  \<^verbatim>\<open>void write_color(std::ostream& out, const color& pixel_color);\<close> are in Color.h.
\<close>

type_synonym color = vec3

text \<open>
  An output stream is the text written to it so far. Writing an \<^verbatim>\<open>int\<close> to a stream
  appends its decimal digits, after a minus sign when it is negative.
\<close>

type_synonym ostream = string

definition digit_char :: "nat \<Rightarrow> char" where
  "digit_char d = ''0123456789'' ! d"

fun show_nat :: "nat \<Rightarrow> string" where
  "show_nat n =
     (if n < 10 then [digit_char n] else show_nat (n div 10) @ [digit_char (n mod 10)])"

declare show_nat.simps [simp del]

definition show_int :: "int \<Rightarrow> string" where
  "show_int i = (if i < 0 then CHR ''-'' # show_nat (nat (- i)) else show_nat (nat i))"

text \<open>The number that a string of decimal digits denotes.\<close>

definition digit_value :: "char \<Rightarrow> nat" where
  "digit_value c = of_char c - 48"

definition decimal_value :: "string \<Rightarrow> nat" where
  "decimal_value s = foldl (\<lambda>a c. 10 * a + digit_value c) 0 s"

text \<open>
  Modelled from the spec: the body of \<^verbatim>\<open>write_color\<close> is in Color.cpp, which is not among
  the sources. The spec has it convert each component to the integer
  \<open>floor(255.999 * component)\<close>, without clamping, and write the three integers in
  decimal, separated by spaces, one pixel per line, in the order R G B. The integers are
  taken unbounded.
\<close>

definition color_byte :: "real \<Rightarrow> int" where
  "color_byte c = \<lfloor>255.999 * c\<rfloor>"

definition write_color :: "ostream \<Rightarrow> color \<Rightarrow> ostream" where
  "write_color out pixel_color =
     out @ show_int (color_byte (vec3_x pixel_color)) @ '' ''
         @ show_int (color_byte (vec3_y pixel_color)) @ '' ''
         @ show_int (color_byte (vec3_z pixel_color)) @ ''\<newline>''"

section \<open>The image height of the render loop\<close>

text \<open>
  Modelled from the spec: main.cpp, which sets up the camera, is not among the sources.
  The spec derives \<open>image_height = max(1, round(image_width / aspect_ratio))\<close> from an
  integer width and a real aspect ratio. \<^const>\<open>round\<close> rounds to the nearest integer and
  a tie upwards; on a positive quotient that is also the rule of \<^verbatim>\<open>std::round\<close>, which
  rounds a tie away from zero.
\<close>

definition image_height :: "int \<Rightarrow> real \<Rightarrow> fault + int" where
  "image_height image_width aspect_ratio =
     (case double_div (of_int image_width) aspect_ratio of
        Inl f \<Rightarrow> Inl f
      | Inr q \<Rightarrow> Inr (max 1 (round q)))"

section \<open>IEEE 754 binary64 arithmetic\<close>

text \<open>
  A \<^verbatim>\<open>double\<close> is a finite number, a zero of either sign, an infinity of either sign or
  a NaN. \<open>Fin x\<close> is the finite double of value \<open>x\<close>, and \<open>Fin 0\<close> is the positive zero;
  \<open>Neg_Zero\<close> is the negative zero.
\<close>

datatype dbl = Fin real | Neg_Zero | PInf | NInf | NaN

fun is_nan :: "dbl \<Rightarrow> bool" where
  "is_nan NaN = True"
| "is_nan d = False"

fun is_inf :: "dbl \<Rightarrow> bool" where
  "is_inf PInf = True"
| "is_inf NInf = True"
| "is_inf d = False"

definition inf_or_nan :: "dbl \<Rightarrow> bool" where
  "inf_or_nan a = (is_inf a \<or> is_nan a)"

definition is_zero :: "dbl \<Rightarrow> bool" where
  "is_zero d = (d = Fin 0 \<or> d = Neg_Zero)"

text \<open>The sign bit, and the value of a finite double.\<close>

fun sign_bit :: "dbl \<Rightarrow> bool" where
  "sign_bit (Fin x) = (x < 0)"
| "sign_bit Neg_Zero = True"
| "sign_bit PInf = False"
| "sign_bit NInf = True"
| "sign_bit NaN = False"

fun val :: "dbl \<Rightarrow> real" where
  "val (Fin x) = x"
| "val d = 0"

definition zero_of_sign :: "bool \<Rightarrow> dbl" where
  "zero_of_sign negative = (if negative then Neg_Zero else Fin 0)"

definition inf_of_sign :: "bool \<Rightarrow> dbl" where
  "inf_of_sign negative = (if negative then NInf else PInf)"

text \<open>
  Rounding. The exponent of \<open>x\<close> is the greatest \<open>e\<close> from -1022 to 1023 with
  \<open>2 powi e \<le> \<bar>x\<bar>\<close>, and -1022 (the exponent of the subnormal numbers) when there is
  none; it is found by going down from 1023. A double with this exponent is a multiple
  of \<open>ulp x\<close>, so \<open>x\<close> is rounded to the nearest multiple, to the even one when two are
  equally near. A result of magnitude \<open>2 ^ 1024\<close> or more is an infinity; a result that
  is zero keeps the sign of \<open>x\<close>.
\<close>

fun exponent_from :: "nat \<Rightarrow> int \<Rightarrow> real \<Rightarrow> int" where
  "exponent_from 0 e x = e"
| "exponent_from (Suc n) e x = (if 2 powi e \<le> x then e else exponent_from n (e - 1) x)"

definition exponent :: "real \<Rightarrow> int" where
  "exponent x = exponent_from 2045 1023 \<bar>x\<bar>"

definition ulp :: "real \<Rightarrow> real" where
  "ulp x = 2 powi (exponent x - 52)"

definition round_half_even :: "real \<Rightarrow> int" where
  "round_half_even q =
     (if q - of_int \<lfloor>q\<rfloor> < 1 / 2 then \<lfloor>q\<rfloor>
      else if 1 / 2 < q - of_int \<lfloor>q\<rfloor> then \<lfloor>q\<rfloor> + 1
      else if even \<lfloor>q\<rfloor> then \<lfloor>q\<rfloor>
      else \<lfloor>q\<rfloor> + 1)"

definition round_to_double :: "real \<Rightarrow> dbl" where
  "round_to_double x =
     (if 2 ^ 1024 \<le> \<bar>of_int (round_half_even (x / ulp x)) * ulp x\<bar> then inf_of_sign (x < 0)
      else if of_int (round_half_even (x / ulp x)) * ulp x = 0 then zero_of_sign (x < 0)
      else Fin (of_int (round_half_even (x / ulp x)) * ulp x))"

text \<open>
  The finite doubles: the zeros, and the numbers that rounding leaves as they are. The
  operations below are meant for arguments that are doubles.
\<close>

definition finite_double :: "dbl \<Rightarrow> bool" where
  "finite_double a =
     (case a of
        Fin x \<Rightarrow> x = 0 \<or> round_to_double x = Fin x
      | Neg_Zero \<Rightarrow> True
      | PInf \<Rightarrow> False
      | NInf \<Rightarrow> False
      | NaN \<Rightarrow> False)"

text \<open>
  The operations \<^verbatim>\<open>-a\<close>, \<^verbatim>\<open>a + b\<close>, \<^verbatim>\<open>a - b\<close>, \<^verbatim>\<open>a * b\<close> and \<^verbatim>\<open>a / b\<close>. A NaN operand gives
  NaN; so do \<open>inf - inf\<close>, \<open>0 * inf\<close>, \<open>inf / inf\<close> and \<open>0 / 0\<close>. A finite number other
  than zero divided by a zero is an infinity. An exact result that is zero is a zero of
  the sign the standard gives it; any other exact result is rounded. None of the
  operations raises an error.
\<close>

definition dbl_neg :: "dbl \<Rightarrow> dbl" where
  "dbl_neg a =
     (case a of
        Fin x \<Rightarrow> (if x = 0 then Neg_Zero else Fin (- x))
      | Neg_Zero \<Rightarrow> Fin 0
      | PInf \<Rightarrow> NInf
      | NInf \<Rightarrow> PInf
      | NaN \<Rightarrow> NaN)"

definition dbl_add :: "dbl \<Rightarrow> dbl \<Rightarrow> dbl" where
  "dbl_add a b =
     (if is_nan a \<or> is_nan b then NaN
      else if is_inf a then (if is_inf b \<and> sign_bit a \<noteq> sign_bit b then NaN else a)
      else if is_inf b then b
      else if val a + val b = 0 then zero_of_sign (sign_bit a \<and> sign_bit b)
      else round_to_double (val a + val b))"

definition dbl_sub :: "dbl \<Rightarrow> dbl \<Rightarrow> dbl" where
  "dbl_sub a b = dbl_add a (dbl_neg b)"

definition dbl_mul :: "dbl \<Rightarrow> dbl \<Rightarrow> dbl" where
  "dbl_mul a b =
     (if is_nan a \<or> is_nan b then NaN
      else if is_inf a \<or> is_inf b then
        (if is_zero a \<or> is_zero b then NaN else inf_of_sign (sign_bit a \<noteq> sign_bit b))
      else if val a * val b = 0 then zero_of_sign (sign_bit a \<noteq> sign_bit b)
      else round_to_double (val a * val b))"

definition dbl_div :: "dbl \<Rightarrow> dbl \<Rightarrow> dbl" where
  "dbl_div a b =
     (if is_nan a \<or> is_nan b then NaN
      else if is_inf a then (if is_inf b then NaN else inf_of_sign (sign_bit a \<noteq> sign_bit b))
      else if is_inf b then zero_of_sign (sign_bit a \<noteq> sign_bit b)
      else if is_zero b then
        (if is_zero a then NaN else inf_of_sign (sign_bit a \<noteq> sign_bit b))
      else if is_zero a then zero_of_sign (sign_bit a \<noteq> sign_bit b)
      else round_to_double (val a / val b))"

text \<open>
  The comparison \<^verbatim>\<open>a == b\<close>: a NaN equals nothing, the two zeros are equal.
\<close>

definition dbl_eq :: "dbl \<Rightarrow> dbl \<Rightarrow> bool" where
  "dbl_eq a b =
     (if is_nan a \<or> is_nan b then False
      else if is_inf a \<or> is_inf b then a = b
      else val a = val b)"

section \<open>Vec3.cpp and Ray.h in binary64 arithmetic\<close>

text \<open>
  The members that the properties on rounding and on division by zero are about, with
  the same bodies as in the exact model and the arithmetic of \<open>dbl\<close>. The name of each
  ends in \<open>_d\<close>.

  \<^verbatim>\<open>double e[3]\<close>.
\<close>

record vec3_d =
  e0_d :: dbl
  e1_d :: dbl
  e2_d :: dbl

text \<open>\<^verbatim>\<open>vec3::vec3(double e0, double e1, double e2) : e{e0, e1, e2} {}\<close>\<close>

definition vec3_new_d :: "dbl \<Rightarrow> dbl \<Rightarrow> dbl \<Rightarrow> vec3_d" where
  "vec3_new_d a b c = \<lparr>e0_d = a, e1_d = b, e2_d = c\<rparr>"

text \<open>\<^verbatim>\<open>e[0] *= t; e[1] *= t; e[2] *= t; return *this;\<close>\<close>

definition operator_times_assign_d :: "vec3_d \<Rightarrow> dbl \<Rightarrow> vec3_d" where
  "operator_times_assign_d this t =
     this\<lparr>e0_d := dbl_mul (e0_d this) t, e1_d := dbl_mul (e1_d this) t,
       e2_d := dbl_mul (e2_d this) t\<rparr>"

text \<open>
  \<^verbatim>\<open>return *this *= 1/t;\<close> The \<^verbatim>\<open>int\<close> 1 is converted to the double 1. There is no test
  of \<open>t\<close> and no error path: the function returns a vector for every \<open>t\<close>.
\<close>

definition operator_divide_assign_d :: "vec3_d \<Rightarrow> dbl \<Rightarrow> vec3_d" where
  "operator_divide_assign_d this t = operator_times_assign_d this (dbl_div (Fin 1) t)"

text \<open>
  Modelled from the spec: the header Vec3.h, which defines the free operators, is not
  among the sources. As in the exact model, vector+vector, vector-vector and
  scalar*vector are taken component by component.
\<close>

definition operator_plus_d :: "vec3_d \<Rightarrow> vec3_d \<Rightarrow> vec3_d" where
  "operator_plus_d u v =
     vec3_new_d (dbl_add (e0_d u) (e0_d v)) (dbl_add (e1_d u) (e1_d v))
       (dbl_add (e2_d u) (e2_d v))"

definition operator_minus_d :: "vec3_d \<Rightarrow> vec3_d \<Rightarrow> vec3_d" where
  "operator_minus_d u v =
     vec3_new_d (dbl_sub (e0_d u) (e0_d v)) (dbl_sub (e1_d u) (e1_d v))
       (dbl_sub (e2_d u) (e2_d v))"

definition operator_times_d :: "dbl \<Rightarrow> vec3_d \<Rightarrow> vec3_d" where
  "operator_times_d t v =
     vec3_new_d (dbl_mul t (e0_d v)) (dbl_mul t (e1_d v)) (dbl_mul t (e2_d v))"

text \<open>
  Two vectors are equal when \<^verbatim>\<open>==\<close> holds of each pair of components; a vector is
  finite when its three components are finite doubles.
\<close>

definition vec3_eq_d :: "vec3_d \<Rightarrow> vec3_d \<Rightarrow> bool" where
  "vec3_eq_d u v =
     (dbl_eq (e0_d u) (e0_d v) \<and> dbl_eq (e1_d u) (e1_d v) \<and> dbl_eq (e2_d u) (e2_d v))"

definition vec3_finite_d :: "vec3_d \<Rightarrow> bool" where
  "vec3_finite_d v =
     (finite_double (e0_d v) \<and> finite_double (e1_d v) \<and> finite_double (e2_d v))"

text \<open>
  The class Ray: \<^verbatim>\<open>vec3 orig; vec3 dir;\<close>, the constructor
  \<^verbatim>\<open>Ray(const vec3& origin, const vec3& direction) : orig(origin), dir(direction) {}\<close>
  and the accessors \<^verbatim>\<open>origin()\<close> and \<^verbatim>\<open>direction()\<close>.
\<close>

record Ray_d =
  orig_d :: vec3_d
  dir_d :: vec3_d

definition Ray_new_d :: "vec3_d \<Rightarrow> vec3_d \<Rightarrow> Ray_d" where
  "Ray_new_d p d = \<lparr>orig_d = p, dir_d = d\<rparr>"

definition origin_d :: "Ray_d \<Rightarrow> vec3_d" where
  "origin_d r = orig_d r"

definition direction_d :: "Ray_d \<Rightarrow> vec3_d" where
  "direction_d r = dir_d r"

text \<open>\<^verbatim>\<open>vec3 at(double t) const { return orig + t*dir; }\<close>\<close>

definition ray_at_d :: "Ray_d \<Rightarrow> dbl \<Rightarrow> vec3_d" where
  "ray_at_d r t = operator_plus_d (orig_d r) (operator_times_d t (dir_d r))"

section \<open>Properties of vec3\<close>

text \<open>
  C6. For every vector with components (x, y, z), \<^verbatim>\<open>length_squared()\<close> is
  \<open>x*x + y*y + z*z\<close>, a sum of products with no square root in it, and \<^verbatim>\<open>length()\<close> is
  the square root of \<^verbatim>\<open>length_squared()\<close>. The components are read through the accessors,
  and the second conjunct says the same for a vector built from three numbers.
\<close>

theorem length_squared_and_length:
  "length_squared v = vec3_x v * vec3_x v + vec3_y v * vec3_y v + vec3_z v * vec3_z v
   \<and> length_squared (vec3_new a b c) = a * a + b * b + c * c
   \<and> vec3_length v = sqrt (length_squared v)
   \<and> vec3_length (vec3_new a b c) = sqrt (a * a + b * b + c * c)"
  by (simp add: length_squared_def vec3_length_def vec3_x_def vec3_y_def vec3_z_def
      vec3_new_def)

lemma e_at_in_range:
  "i \<in> {0, 1, 2} \<Longrightarrow>
     e_at v i = Inr (if i = 0 then e0 v else if i = 1 then e1 v else e2 v)"
  by (auto simp add: e_at_def)

lemma e_at_after_store:
  "i \<in> {0, 1, 2} \<Longrightarrow>
     \<exists>v'. e_store v i c = Inr v' \<and> e_at v' i = Inr c \<and> (\<forall>j. j \<noteq> i \<longrightarrow> e_at v' j = e_at v j)"
  by (auto simp add: e_at_def e_store_def)

text \<open>
  C5. For an index \<open>i\<close> among 0, 1, 2 the read access \<^verbatim>\<open>v[i]\<close> returns the component
  number \<open>i\<close> (\<^verbatim>\<open>v[0]\<close> is \<^verbatim>\<open>x()\<close>, \<^verbatim>\<open>v[1]\<close> is \<^verbatim>\<open>y()\<close>, \<^verbatim>\<open>v[2]\<close> is \<^verbatim>\<open>z()\<close>), and the
  read-write access gives a reference to that same component: reading through it gives
  the same number, and assigning \<open>c\<close> through it makes \<^verbatim>\<open>v[i]\<close> equal to \<open>c\<close> and changes no
  other component. Under this precondition every access returns a value: the fault of an
  index out of range is not reached.
\<close>

theorem index_access_in_range:
  assumes "i \<in> {0, 1, 2}"
  shows "operator_index_const v i =
           Inr (if i = 0 then vec3_x v else if i = 1 then vec3_y v else vec3_z v)
         \<and> operator_index v i = Inr (Cell i)
         \<and> ref_read v (Cell i) = operator_index_const v i
         \<and> (\<exists>v'. ref_write v (Cell i) c = Inr v'
               \<and> operator_index_const v' i = Inr c
               \<and> (\<forall>j. j \<noteq> i \<longrightarrow> operator_index_const v' j = operator_index_const v j))"
proof -
  have rd: "e_at v i = Inr (if i = 0 then e0 v else if i = 1 then e1 v else e2 v)"
    using assms by (rule e_at_in_range)
  have "operator_index_const v i =
          Inr (if i = 0 then vec3_x v else if i = 1 then vec3_y v else vec3_z v)"
    using rd by (simp add: operator_index_const_def vec3_x_def vec3_y_def vec3_z_def)
  moreover have "operator_index v i = Inr (Cell i)"
    using rd by (simp add: operator_index_def)
  moreover have "ref_read v (Cell i) = operator_index_const v i"
    by (simp add: operator_index_const_def)
  moreover have "\<exists>v'. ref_write v (Cell i) c = Inr v'
      \<and> operator_index_const v' i = Inr c
      \<and> (\<forall>j. j \<noteq> i \<longrightarrow> operator_index_const v' j = operator_index_const v j)"
    using e_at_after_store [OF assms, of v c] by (simp add: operator_index_const_def)
  ultimately show ?thesis by blast
qed

theorem index_access_in_range_witness:
  "(1::int) \<in> {0, 1, 2}
   \<and> operator_index_const (vec3_new 5 6 7) 1 = Inr 6
   \<and> operator_index (vec3_new 5 6 7) 1 = Inr (Cell 1)
   \<and> ref_read (vec3_new 5 6 7) (Cell 1) = Inr 6
   \<and> ref_write (vec3_new 5 6 7) (Cell 1) 9 = Inr (vec3_new 5 9 7)"
proof -
  have h: "(1::int) \<in> {0, 1, 2}" by simp
  show ?thesis
    using index_access_in_range [OF h, of "vec3_new 5 6 7" 9]
    by (simp add: vec3_new_def vec3_y_def e_store_def)
qed

text \<open>
  C10. In-place division by a scalar is multiplication by the reciprocal: for every
  vector \<open>v\<close> and every \<open>t\<close> other than zero, \<^verbatim>\<open>v /= t\<close> does what \<^verbatim>\<open>v *= (1/t)\<close> does, and
  in exact arithmetic that is the division of every component by \<open>t\<close>.
\<close>

theorem divide_assign_is_times_reciprocal:
  assumes "t \<noteq> 0"
  shows "operator_divide_assign v t = Inr (operator_times_assign v (1 / t))
         \<and> operator_divide_assign v t = Inr (divide_componentwise v t)"
  using assms
  by (simp add: operator_divide_assign_def double_div_def operator_times_assign_def
      divide_componentwise_def)

theorem divide_assign_is_times_reciprocal_witness:
  "(2::real) \<noteq> 0
   \<and> operator_divide_assign (vec3_new 2 4 6) 2 = Inr (operator_times_assign (vec3_new 2 4 6) (1 / 2))
   \<and> operator_divide_assign (vec3_new 2 4 6) 2 = Inr (vec3_new 1 2 3)"
proof -
  have h: "(2::real) \<noteq> 0" by simp
  show ?thesis
    using divide_assign_is_times_reciprocal [OF h, of "vec3_new 2 4 6"]
    by (simp add: divide_componentwise_def operator_times_assign_def vec3_new_def)
qed

lemma const_call_unchanged:
  "const_call c \<Longrightarrow> index_in_range c \<Longrightarrow> vec3_after c v = Inr v"
  by (cases c) (auto simp add: operator_index_const_def e_at_def)

lemma changed_by_assignment:
  "vec3_after c v = Inr v' \<Longrightarrow> v' \<noteq> v \<Longrightarrow> compound_assignment c \<or> index_assignment c"
  by (cases c) (auto split: sum.splits)

text \<open>
  C4, as the spec states it: the only operations that change a vector are the
  compound assignments. The assignment \<^verbatim>\<open>v[0] = 1\<close> through the non-const
  \<^verbatim>\<open>operator[]\<close> changes the zero vector and is not a compound assignment.
\<close>

theorem index_assignment_changes_vec3:
  "vec3_after (Call_index_assign 0 1) vec3_default = Inr (vec3_new 1 0 0)
   \<and> vec3_new 1 0 0 \<noteq> vec3_default
   \<and> \<not> compound_assignment (Call_index_assign 0 1)"
  by (simp add: operator_index_def e_at_def e_store_def vec3_default_def vec3_new_def)

text \<open>
  C4, amended. A call of \<^verbatim>\<open>x()\<close>, \<^verbatim>\<open>y()\<close>, \<^verbatim>\<open>z()\<close>, the const \<^verbatim>\<open>operator[]\<close> (with an
  index among 0, 1, 2), unary minus, \<^verbatim>\<open>length()\<close> or \<^verbatim>\<open>length_squared()\<close> returns and
  leaves the three components of \<open>v\<close> as they were. A call after which \<open>v\<close> differs is one
  of the three compound assignments \<^verbatim>\<open>+=\<close>, \<^verbatim>\<open>*=\<close>, \<^verbatim>\<open>/=\<close> or an assignment through the
  reference returned by the non-const \<^verbatim>\<open>operator[]\<close>, and each of these four does change
  some vector.
\<close>

theorem vec3_frame:
  "(const_call c \<and> index_in_range c \<longrightarrow> vec3_after c v = Inr v)
   \<and> (vec3_after c v = Inr v' \<and> v' \<noteq> v \<longrightarrow> compound_assignment c \<or> index_assignment c)
   \<and> vec3_after (Call_plus_assign (vec3_new 1 0 0)) (vec3_new 1 2 3) = Inr (vec3_new 2 2 3)
   \<and> vec3_after (Call_times_assign 2) (vec3_new 1 2 3) = Inr (vec3_new 2 4 6)
   \<and> vec3_after (Call_divide_assign 2) (vec3_new 2 4 6) = Inr (vec3_new 1 2 3)
   \<and> vec3_after (Call_index_assign 2 9) (vec3_new 1 2 3) = Inr (vec3_new 1 2 9)"
proof -
  have "vec3_after (Call_plus_assign (vec3_new 1 0 0)) (vec3_new 1 2 3) = Inr (vec3_new 2 2 3)"
    by (simp add: operator_plus_assign_def vec3_new_def)
  moreover have "vec3_after (Call_times_assign 2) (vec3_new 1 2 3) = Inr (vec3_new 2 4 6)"
    by (simp add: operator_times_assign_def vec3_new_def)
  moreover have "vec3_after (Call_divide_assign 2) (vec3_new 2 4 6) = Inr (vec3_new 1 2 3)"
    by (simp add: operator_divide_assign_def double_div_def operator_times_assign_def
        vec3_new_def)
  moreover have "vec3_after (Call_index_assign 2 9) (vec3_new 1 2 3) = Inr (vec3_new 1 2 9)"
    by (simp add: operator_index_def e_at_def e_store_def vec3_new_def)
  ultimately show ?thesis
    using const_call_unchanged [of c v] changed_by_assignment [of c v v'] by blast
qed

theorem vec3_frame_witness:
  "const_call (Call_index_const 1) \<and> index_in_range (Call_index_const 1)
   \<and> vec3_after (Call_index_const 1) (vec3_new 1 2 3) = Inr (vec3_new 1 2 3)
   \<and> vec3_after (Call_times_assign 2) (vec3_new 1 2 3) = Inr (vec3_new 2 4 6)
   \<and> vec3_new 2 4 6 \<noteq> vec3_new 1 2 3
   \<and> (compound_assignment (Call_times_assign 2) \<or> index_assignment (Call_times_assign 2))"
  using vec3_frame [of "Call_index_const 1" "vec3_new 1 2 3" "vec3_new 1 2 3"]
    vec3_frame [of "Call_times_assign 2" "vec3_new 1 2 3" "vec3_new 2 4 6"]
  by (simp add: vec3_new_def)

section \<open>Properties of Ray\<close>

lemma ray_after_same: "ray_after c r = r"
  by (cases c) simp_all

lemma ray_after_all_same: "ray_after_all cs r = r"
  by (induction cs arbitrary: r) (simp_all add: ray_after_same)

text \<open>
  C1. For every ray \<open>r\<close> and every real parameter \<open>t\<close>, negative ones included,
  \<^verbatim>\<open>r.at(t)\<close> is \<^verbatim>\<open>r.origin() + t * r.direction()\<close>; in particular \<^verbatim>\<open>r.at(0)\<close> is
  \<^verbatim>\<open>r.origin()\<close> and \<^verbatim>\<open>r.at(1)\<close> is \<^verbatim>\<open>r.origin() + r.direction()\<close>. The last conjunct
  gives the point component by component.
\<close>

theorem ray_at_origin_plus_t_direction:
  "ray_at r t = operator_plus (origin r) (operator_times t (direction r))
   \<and> ray_at r 0 = origin r
   \<and> ray_at r 1 = operator_plus (origin r) (direction r)
   \<and> ray_at (Ray_new (vec3_new ox oy oz) (vec3_new dx dy dz)) t =
       vec3_new (ox + t * dx) (oy + t * dy) (oz + t * dz)"
  by (simp add: ray_at_def origin_def direction_def operator_plus_def operator_times_def
      vec3_new_def Ray_new_def)

text \<open>
  C8. A default-constructed Ray has the zero vector as origin and as direction. A Ray
  constructed from an origin and a direction returns exactly these from \<^verbatim>\<open>origin()\<close>
  and \<^verbatim>\<open>direction()\<close>, and still does after any sequence of calls of its public member
  functions: the class has no operation that changes a Ray.
\<close>

theorem ray_construction_and_immutability:
  "origin Ray_default = vec3_new 0 0 0
   \<and> direction Ray_default = vec3_new 0 0 0
   \<and> origin (Ray_new p d) = p
   \<and> direction (Ray_new p d) = d
   \<and> origin (ray_after_all cs (Ray_new p d)) = p
   \<and> direction (ray_after_all cs (Ray_new p d)) = d"
  by (simp add: ray_after_all_same origin_def direction_def Ray_default_def Ray_new_def
      vec3_default_def vec3_new_def)

section \<open>Properties of write_color\<close>

lemma lt10: "(d::nat) < 10 \<Longrightarrow> d \<in> {0, 1, 2, 3, 4, 5, 6, 7, 8, 9}"
  by (simp add: numeral_eq_Suc less_Suc_eq)

lemma show_nat_small: "n < 10 \<Longrightarrow> show_nat n = [digit_char n]"
  by (subst show_nat.simps) simp

lemma show_nat_large:
  "\<not> n < 10 \<Longrightarrow> show_nat n = show_nat (n div 10) @ [digit_char (n mod 10)]"
  by (subst show_nat.simps) simp

lemma digit_value_digit_char: "d < 10 \<Longrightarrow> digit_value (digit_char d) = d"
proof -
  assume "d < 10"
  then have "d \<in> {0, 1, 2, 3, 4, 5, 6, 7, 8, 9}" by (rule lt10)
  then show ?thesis
    by (auto simp add: digit_char_def digit_value_def)
qed

lemma decimal_value_snoc:
  "decimal_value (s @ [c]) = 10 * decimal_value s + digit_value c"
  by (simp add: decimal_value_def)

text \<open>The digits written for a natural number denote that number.\<close>

lemma decimal_value_show_nat: "decimal_value (show_nat n) = n"
proof (induction n rule: show_nat.induct)
  case (1 n)
  show ?case
  proof (cases "n < 10")
    case True
    then show ?thesis
      by (simp add: show_nat_small decimal_value_def digit_value_digit_char)
  next
    case False
    then have "decimal_value (show_nat n) =
        10 * decimal_value (show_nat (n div 10)) + digit_value (digit_char (n mod 10))"
      by (simp add: show_nat_large decimal_value_snoc)
    also have "\<dots> = 10 * (n div 10) + n mod 10"
      using False "1.IH" by (simp add: digit_value_digit_char)
    finally show ?thesis by simp
  qed
qed

lemma digit_char_in: "d < 10 \<Longrightarrow> digit_char d \<in> set ''0123456789''"
proof -
  assume "d < 10"
  then have "d \<in> {0, 1, 2, 3, 4, 5, 6, 7, 8, 9}" by (rule lt10)
  then show ?thesis
    by (auto simp add: digit_char_def)
qed

lemma show_nat_digits: "set (show_nat n) \<subseteq> set ''0123456789''"
proof (induction n rule: show_nat.induct)
  case (1 n)
  show ?case
  proof (cases "n < 10")
    case True
    then show ?thesis using digit_char_in [of n] by (simp add: show_nat_small)
  next
    case False
    have "n mod 10 < 10" by simp
    then have "digit_char (n mod 10) \<in> set ''0123456789''" by (rule digit_char_in)
    moreover have "set (show_nat (n div 10)) \<subseteq> set ''0123456789''"
      using False "1.IH" by simp
    ultimately show ?thesis using False by (simp add: show_nat_large)
  qed
qed

lemma show_nat_not:
  assumes "c \<notin> set ''0123456789''"
  shows "c \<notin> set (show_nat n)"
  using assms show_nat_digits [of n] by (meson subsetD)

lemma show_int_not:
  assumes "c \<notin> set ''0123456789''" and "c \<noteq> CHR ''-''"
  shows "c \<notin> set (show_int i)"
proof (cases "i < 0")
  case True
  then have "show_int i = CHR ''-'' # show_nat (nat (- i))" by (simp add: show_int_def)
  then show ?thesis using assms show_nat_not [of c "nat (- i)"] by simp
next
  case False
  then have "show_int i = show_nat (nat i)" by (simp add: show_int_def)
  then show ?thesis using assms show_nat_not [of c "nat i"] by simp
qed

lemma show_int_no_newline: "CHR 0x0A \<notin> set (show_int i)"
  by (rule show_int_not) simp_all

lemma show_int_no_space: "CHR '' '' \<notin> set (show_int i)"
  by (rule show_int_not) simp_all

lemma show_int_255: "show_int 255 = ''255''"
  by (simp add: show_int_def digit_char_def show_nat.simps)

lemma show_int_127: "show_int 127 = ''127''"
  by (simp add: show_int_def digit_char_def show_nat.simps)

lemma show_int_0: "show_int 0 = ''0''"
  by (simp add: show_int_def digit_char_def show_nat.simps)

lemma show_int_511: "show_int 511 = ''511''"
  by (simp add: show_int_def digit_char_def show_nat.simps)

lemma show_int_minus_256: "show_int (- 256) = ''-256''"
  by (simp add: show_int_def digit_char_def show_nat.simps)

lemma write_color_components:
  "write_color out (vec3_new r g b) =
     out @ show_int \<lfloor>255.999 * r\<rfloor> @ '' '' @ show_int \<lfloor>255.999 * g\<rfloor> @ '' ''
         @ show_int \<lfloor>255.999 * b\<rfloor> @ ''\<newline>''"
  by (simp add: write_color_def color_byte_def vec3_new_def vec3_x_def vec3_y_def vec3_z_def)

text \<open>
  C2. \<^verbatim>\<open>write_color\<close> turns each component \<open>c\<close> of the colour into the integer
  \<open>floor(255.999 * c)\<close>, unclamped, and appends the three integers in decimal, in the
  order R G B, separated by one space and ended by a newline, which is the only newline
  among the characters it appends. So (1, 1, 1) gives the line \<^verbatim>\<open>255 255 255\<close>,
  (0, 0, 0) gives \<^verbatim>\<open>0 0 0\<close> and (0.5, 0.5, 0.5) gives \<^verbatim>\<open>127 127 127\<close>; a component
  outside the interval from 0 to 1 gives an integer outside 0 to 255, as (2, -1, 0)
  gives \<^verbatim>\<open>511 -256 0\<close>.
\<close>

theorem write_color_line:
  "write_color out (vec3_new r g b) =
     out @ show_int \<lfloor>255.999 * r\<rfloor> @ '' '' @ show_int \<lfloor>255.999 * g\<rfloor> @ '' ''
         @ show_int \<lfloor>255.999 * b\<rfloor> @ ''\<newline>''
   \<and> (\<exists>line. write_color out (vec3_new r g b) = out @ line @ ''\<newline>''
         \<and> CHR 0x0A \<notin> set line)
   \<and> write_color [] (vec3_new 1 1 1) = ''255 255 255\<newline>''
   \<and> write_color [] (vec3_new 0 0 0) = ''0 0 0\<newline>''
   \<and> write_color [] (vec3_new 0.5 0.5 0.5) = ''127 127 127\<newline>''
   \<and> write_color [] (vec3_new 2 (- 1) 0) = ''511 -256 0\<newline>''"
proof -
  have "\<exists>line. write_color out (vec3_new r g b) = out @ line @ ''\<newline>''
      \<and> CHR 0x0A \<notin> set line"
    by (simp add: write_color_def show_int_no_newline)
  moreover have "write_color [] (vec3_new 1 1 1) = ''255 255 255\<newline>''"
    by (simp add: write_color_components show_int_255)
  moreover have "write_color [] (vec3_new 0 0 0) = ''0 0 0\<newline>''"
    by (simp add: write_color_components show_int_0)
  moreover have "write_color [] (vec3_new 0.5 0.5 0.5) = ''127 127 127\<newline>''"
    by (simp add: write_color_components show_int_127)
  moreover have "write_color [] (vec3_new 2 (- 1) 0) = ''511 -256 0\<newline>''"
    by (simp add: write_color_components show_int_511 show_int_minus_256 show_int_0)
  ultimately show ?thesis
    using write_color_components [of out r g b] by blast
qed

section \<open>Properties of the image height\<close>

text \<open>
  C9. For every positive image width and every positive aspect ratio the image height
  \<open>max(1, round(image_width / aspect_ratio))\<close> is computed and is at least 1; when the
  quotient rounds to 0 it is 1.
\<close>

theorem image_height_at_least_1:
  assumes "0 < image_width" and "0 < aspect_ratio"
  shows "\<exists>h. image_height image_width aspect_ratio = Inr h
           \<and> 1 \<le> h
           \<and> h = max 1 (round (real_of_int image_width / aspect_ratio))
           \<and> (round (real_of_int image_width / aspect_ratio) = 0 \<longrightarrow> h = 1)"
  using assms by (simp add: image_height_def double_div_def)

theorem image_height_at_least_1_witness:
  "(0::int) < 1 \<and> (0::real) < 4 \<and> round (real_of_int 1 / 4) = 0
   \<and> image_height 1 4 = Inr 1
   \<and> image_height 400 (16 / 9) = Inr 225"
proof -
  have w: "(0::int) < 1" and a: "(0::real) < 4" by simp_all
  have w': "(0::int) < 400" and a': "(0::real) < 16 / 9" by simp_all
  show ?thesis
    using image_height_at_least_1 [OF w a] image_height_at_least_1 [OF w' a']
    by (simp add: round_def)
qed

section \<open>Properties of binary64 rounding\<close>

text \<open>The exponent that the search finds.\<close>

lemma exponent_from_found:
  "2 powi k \<le> x \<Longrightarrow> x < 2 powi (k + 1) \<Longrightarrow> k \<le> e \<Longrightarrow> e - k \<le> int n \<Longrightarrow>
     exponent_from n e x = k"
proof (induction n arbitrary: e)
  case 0
  then show ?case by simp
next
  case (Suc n)
  show ?case
  proof (cases "2 powi e \<le> x")
    case True
    have "e < k + 1"
    proof (rule ccontr)
      assume "\<not> e < k + 1"
      then have "k + 1 \<le> e" by simp
      then have "(2::real) powi (k + 1) \<le> 2 powi e"
        by (rule power_int_increasing) simp
      with True Suc.prems(2) show False by simp
    qed
    with Suc.prems(3) have "e = k" by simp
    with True show ?thesis by simp
  next
    case False
    then have "e \<noteq> k" using Suc.prems(1) by auto
    with Suc.prems(3) have "k \<le> e - 1" by simp
    moreover have "e - 1 - k \<le> int n" using Suc.prems(4) by simp
    ultimately have "exponent_from n (e - 1) x = k"
      using Suc.IH [of "e - 1"] Suc.prems(1,2) by simp
    with False show ?thesis by simp
  qed
qed

lemma exponent_from_bottom:
  "x < 2 powi (e - int n + 1) \<Longrightarrow> exponent_from n e x = e - int n"
proof (induction n arbitrary: e)
  case 0
  then show ?case by simp
next
  case (Suc n)
  have "(2::real) powi (e - int (Suc n) + 1) \<le> 2 powi e"
    by (rule power_int_increasing) simp_all
  with Suc.prems have "\<not> 2 powi e \<le> x" by simp
  moreover have "exponent_from n (e - 1) x = e - 1 - int n"
    using Suc.IH [of "e - 1"] Suc.prems by simp
  ultimately show ?case by simp
qed

lemma exponent_normal:
  assumes "2 powi k \<le> \<bar>x\<bar>" and "\<bar>x\<bar> < 2 powi (k + 1)" and "- 1022 \<le> k" and "k \<le> 1023"
  shows "exponent x = k"
  unfolding exponent_def using assms by (intro exponent_from_found) simp_all

lemma exponent_subnormal:
  assumes "\<bar>x\<bar> < 2 powi (- 1022)"
  shows "exponent x = - 1022"
  unfolding exponent_def using exponent_from_bottom [of "\<bar>x\<bar>" 1023 2045] assms by simp

lemma exponent_from_top: "0 < n \<Longrightarrow> 2 powi e \<le> x \<Longrightarrow> exponent_from n e x = e"
  by (cases n) simp_all

lemma exponent_large:
  assumes "2 powi 1023 \<le> \<bar>x\<bar>"
  shows "exponent x = 1023"
  unfolding exponent_def using assms by (intro exponent_from_top) simp_all

text \<open>
  A number with exponent \<open>k\<close> is rounded to \<open>m\<close> times \<open>2 powi (k - 52)\<close>, where \<open>m\<close> is the
  integer nearest to its quotient by that unit, the even one in a tie.
\<close>

lemma round_half_even_of_int: "round_half_even (of_int m) = m"
  by (simp add: round_half_even_def)

lemma round_to_double_eq:
  assumes "2 powi k \<le> \<bar>x\<bar>" and "\<bar>x\<bar> < 2 powi (k + 1)" and "- 1022 \<le> k" and "k \<le> 1023"
    and "round_half_even (x / 2 powi (k - 52)) = m"
    and "y = of_int m * 2 powi (k - 52)" and "y \<noteq> 0" and "\<bar>y\<bar> < 2 ^ 1024"
  shows "round_to_double x = Fin y"
proof -
  have "exponent x = k"
    using assms(1-4) by (rule exponent_normal)
  then have "ulp x = 2 powi (k - 52)"
    by (simp add: ulp_def)
  then have "of_int (round_half_even (x / ulp x)) * ulp x = y"
    using assms(5,6) by simp
  then show ?thesis
    using assms(7,8) by (simp add: round_to_double_def)
qed

lemma rtd_one: "round_to_double 1 = Fin 1"
  by (rule round_to_double_eq [where k = 0 and m = "2 ^ 52"])
     (simp_all add: power_int_def power_one_over round_half_even_def)

lemma rtd_two: "round_to_double 2 = Fin 2"
  by (rule round_to_double_eq [where k = 1 and m = "2 ^ 52"])
     (simp_all add: power_int_def power_one_over round_half_even_def)

lemma rtd_above_one: "round_to_double (1 + 1 / 2 ^ 53) = Fin 1"
  by (rule round_to_double_eq [where k = 0 and m = "2 ^ 52"])
     (simp_all add: power_int_def power_one_over round_half_even_def)

lemma rtd_next_one: "round_to_double (1 + 1 / 2 ^ 52) = Fin (1 + 1 / 2 ^ 52)"
  by (rule round_to_double_eq [where k = 0 and m = "2 ^ 52 + 1"])
     (simp_all add: power_int_def power_one_over round_half_even_def)

lemma rtd_2_53: "round_to_double (1 / 2 ^ 53) = Fin (1 / 2 ^ 53)"
  by (rule round_to_double_eq [where k = "- 53" and m = "2 ^ 52"])
     (simp_all add: power_int_def power_one_over round_half_even_def)

lemma rtd_2_52: "round_to_double (1 / 2 ^ 52) = Fin (1 / 2 ^ 52)"
  by (rule round_to_double_eq [where k = "- 52" and m = "2 ^ 52"])
     (simp_all add: power_int_def power_one_over round_half_even_def)

lemma mul_zero: "dbl_mul (Fin 0) (Fin (1 / 2 ^ 53)) = Fin 0"
  by (simp add: dbl_mul_def zero_of_sign_def)

lemma mul_any_zero: "0 \<le> t \<Longrightarrow> dbl_mul (Fin t) (Fin 0) = Fin 0"
  by (simp add: dbl_mul_def zero_of_sign_def)

lemma mul_1_eps: "dbl_mul (Fin 1) (Fin (1 / 2 ^ 53)) = Fin (1 / 2 ^ 53)"
  using rtd_2_53 by (simp add: dbl_mul_def)

lemma mul_2_eps: "dbl_mul (Fin 2) (Fin (1 / 2 ^ 53)) = Fin (1 / 2 ^ 52)"
  using rtd_2_52 by (simp add: dbl_mul_def)

lemma add_1_1: "dbl_add (Fin 1) (Fin 1) = Fin 2"
  using rtd_two by (simp add: dbl_add_def)

lemma add_1_0: "dbl_add (Fin 1) (Fin 0) = Fin 1"
  using rtd_one by (simp add: dbl_add_def)

lemma add_0_0: "dbl_add (Fin 0) (Fin 0) = Fin 0"
  by (simp add: dbl_add_def zero_of_sign_def)

lemma sub_0_0: "dbl_sub (Fin 0) (Fin 0) = Fin 0"
  by (simp add: dbl_sub_def dbl_neg_def dbl_add_def zero_of_sign_def)

lemma add_1_eps: "dbl_add (Fin 1) (Fin (1 / 2 ^ 53)) = Fin 1"
  using rtd_above_one by (simp add: dbl_add_def)

lemma add_1_2eps: "dbl_add (Fin 1) (Fin (1 / 2 ^ 52)) = Fin (1 + 1 / 2 ^ 52)"
  using rtd_next_one by (simp add: dbl_add_def)

lemma sub_2_1: "dbl_sub (Fin 2) (Fin 1) = Fin 1"
  using rtd_one by (simp add: dbl_sub_def dbl_neg_def dbl_add_def)

text \<open>
  Where the exact model has no quotient, the binary64 quotient is an infinity or a NaN.
\<close>

lemma not_finite_is_inf_or_nan:
  assumes "double_div a b = Inl f"
  shows "f = Not_Finite \<and> b = 0 \<and> inf_or_nan (dbl_div (Fin a) (Fin b))"
proof -
  have "b = 0" and "f = Not_Finite"
    using assms by (auto simp add: double_div_def split: if_splits)
  moreover have "inf_or_nan (dbl_div (Fin a) (Fin 0))"
    by (simp add: dbl_div_def is_zero_def inf_or_nan_def inf_of_sign_def)
  ultimately show ?thesis by simp
qed

lemma divide_assign_ends_at_zero:
  "operator_divide_assign v t = Inl f \<longleftrightarrow> t = 0 \<and> f = Not_Finite"
  by (auto simp add: operator_divide_assign_def double_div_def)

section \<open>Properties of Ray in binary64 arithmetic\<close>

lemma ray_at_d_components:
  "ray_at_d (Ray_new_d (vec3_new_d ox oy oz) (vec3_new_d dx dy dz)) t =
     vec3_new_d (dbl_add ox (dbl_mul t dx)) (dbl_add oy (dbl_mul t dy))
       (dbl_add oz (dbl_mul t dz))"
  by (simp add: ray_at_d_def Ray_new_d_def operator_plus_d_def operator_times_d_def
      vec3_new_d_def)

lemma rounding_ray_at_0:
  "ray_at_d (Ray_new_d (vec3_new_d (Fin 1) (Fin 0) (Fin 0))
       (vec3_new_d (Fin (1 / 2 ^ 53)) (Fin 0) (Fin 0))) (Fin 0) =
     vec3_new_d (Fin 1) (Fin 0) (Fin 0)"
  by (simp only: ray_at_d_components mul_zero mul_any_zero [of 0] add_1_0 add_0_0 order_refl)

lemma rounding_ray_at_1:
  "ray_at_d (Ray_new_d (vec3_new_d (Fin 1) (Fin 0) (Fin 0))
       (vec3_new_d (Fin (1 / 2 ^ 53)) (Fin 0) (Fin 0))) (Fin 1) =
     vec3_new_d (Fin 1) (Fin 0) (Fin 0)"
  by (simp only: ray_at_d_components mul_1_eps mul_any_zero [of 1] add_1_eps add_0_0
      zero_le_one)

lemma rounding_ray_at_2:
  "ray_at_d (Ray_new_d (vec3_new_d (Fin 1) (Fin 0) (Fin 0))
       (vec3_new_d (Fin (1 / 2 ^ 53)) (Fin 0) (Fin 0))) (Fin 2) =
     vec3_new_d (Fin (1 + 1 / 2 ^ 52)) (Fin 0) (Fin 0)"
  by (simp only: ray_at_d_components mul_2_eps mul_any_zero [of 2] add_1_2eps add_0_0
      zero_le_numeral)

lemma rounding_left_side:
  "operator_minus_d
     (operator_plus_d (vec3_new_d (Fin 1) (Fin 0) (Fin 0)) (vec3_new_d (Fin 1) (Fin 0) (Fin 0)))
     (vec3_new_d (Fin 1) (Fin 0) (Fin 0)) =
   vec3_new_d (Fin 1) (Fin 0) (Fin 0)"
  by (simp add: operator_minus_d_def operator_plus_d_def vec3_new_d_def add_1_1 add_0_0
      sub_2_1 sub_0_0)

lemma not_eq_next: "\<not> dbl_eq (Fin 1) (Fin (1 + 1 / 2 ^ 52))"
  by (simp add: dbl_eq_def)

lemma finite_double_examples:
  "finite_double (Fin 0)" "finite_double (Fin 1)" "finite_double (Fin (1 / 2 ^ 53))"
  using rtd_one rtd_2_53 by (simp_all add: finite_double_def)

text \<open>
  C3. The equation \<^verbatim>\<open>at(t1) + at(t2) - at(0) == at(t1 + t2)\<close> does not hold for all rays:
  there are a ray and parameters \<open>t1\<close>, \<open>t2\<close>, all finite doubles, for which the two sides
  differ. For the ray from (1, 0, 0) in the direction (2^-53, 0, 0) and \<open>t1 = t2 = 1\<close>,
  \<^verbatim>\<open>at(1)\<close> is (1, 0, 0), because 1 + 2^-53 lies half way between the doubles 1 and
  1 + 2^-52 and is rounded to the even one, so the left side is (1, 0, 0); \<^verbatim>\<open>at(2)\<close> is
  (1 + 2^-52, 0, 0).
\<close>

theorem ray_at_affine_fails_by_rounding:
  "operator_minus_d
     (operator_plus_d
        (ray_at_d (Ray_new_d (vec3_new_d (Fin 1) (Fin 0) (Fin 0))
             (vec3_new_d (Fin (1 / 2 ^ 53)) (Fin 0) (Fin 0))) (Fin 1))
        (ray_at_d (Ray_new_d (vec3_new_d (Fin 1) (Fin 0) (Fin 0))
             (vec3_new_d (Fin (1 / 2 ^ 53)) (Fin 0) (Fin 0))) (Fin 1)))
     (ray_at_d (Ray_new_d (vec3_new_d (Fin 1) (Fin 0) (Fin 0))
          (vec3_new_d (Fin (1 / 2 ^ 53)) (Fin 0) (Fin 0))) (Fin 0))
     = vec3_new_d (Fin 1) (Fin 0) (Fin 0)
   \<and> ray_at_d (Ray_new_d (vec3_new_d (Fin 1) (Fin 0) (Fin 0))
          (vec3_new_d (Fin (1 / 2 ^ 53)) (Fin 0) (Fin 0))) (dbl_add (Fin 1) (Fin 1))
     = vec3_new_d (Fin (1 + 1 / 2 ^ 52)) (Fin 0) (Fin 0)
   \<and> \<not> vec3_eq_d (vec3_new_d (Fin 1) (Fin 0) (Fin 0))
         (vec3_new_d (Fin (1 + 1 / 2 ^ 52)) (Fin 0) (Fin 0))
   \<and> (\<exists>r t1 t2.
         vec3_finite_d (origin_d r) \<and> vec3_finite_d (direction_d r)
         \<and> finite_double t1 \<and> finite_double t2
         \<and> \<not> vec3_eq_d
               (operator_minus_d (operator_plus_d (ray_at_d r t1) (ray_at_d r t2))
                  (ray_at_d r (Fin 0)))
               (ray_at_d r (dbl_add t1 t2)))"
proof -
  let ?r = "Ray_new_d (vec3_new_d (Fin 1) (Fin 0) (Fin 0))
      (vec3_new_d (Fin (1 / 2 ^ 53)) (Fin 0) (Fin 0))"
  have left: "operator_minus_d (operator_plus_d (ray_at_d ?r (Fin 1)) (ray_at_d ?r (Fin 1)))
      (ray_at_d ?r (Fin 0)) = vec3_new_d (Fin 1) (Fin 0) (Fin 0)"
    by (simp only: rounding_ray_at_0 rounding_ray_at_1 rounding_left_side)
  have right: "ray_at_d ?r (dbl_add (Fin 1) (Fin 1)) =
      vec3_new_d (Fin (1 + 1 / 2 ^ 52)) (Fin 0) (Fin 0)"
    by (simp only: add_1_1 rounding_ray_at_2)
  have differ: "\<not> vec3_eq_d (vec3_new_d (Fin 1) (Fin 0) (Fin 0))
      (vec3_new_d (Fin (1 + 1 / 2 ^ 52)) (Fin 0) (Fin 0))"
    using not_eq_next by (simp add: vec3_eq_d_def vec3_new_d_def)
  have fin: "vec3_finite_d (origin_d ?r)" "vec3_finite_d (direction_d ?r)"
    "finite_double (Fin 1)"
    using finite_double_examples
    by (simp_all add: vec3_finite_d_def origin_d_def direction_d_def Ray_new_d_def
        vec3_new_d_def)
  have "vec3_finite_d (origin_d ?r) \<and> vec3_finite_d (direction_d ?r)
      \<and> finite_double (Fin 1) \<and> finite_double (Fin 1)
      \<and> \<not> vec3_eq_d
            (operator_minus_d (operator_plus_d (ray_at_d ?r (Fin 1)) (ray_at_d ?r (Fin 1)))
               (ray_at_d ?r (Fin 0)))
            (ray_at_d ?r (dbl_add (Fin 1) (Fin 1)))"
    using fin differ by (simp only: left right simp_thms)
  then have "\<exists>r t1 t2.
      vec3_finite_d (origin_d r) \<and> vec3_finite_d (direction_d r)
      \<and> finite_double t1 \<and> finite_double t2
      \<and> \<not> vec3_eq_d
            (operator_minus_d (operator_plus_d (ray_at_d r t1) (ray_at_d r t2))
               (ray_at_d r (Fin 0)))
            (ray_at_d r (dbl_add t1 t2))"
    by blast
  with left right differ show ?thesis by blast
qed

section \<open>Properties of vec3 in binary64 arithmetic\<close>

lemma div_1_pos_zero: "dbl_div (Fin 1) (Fin 0) = PInf"
  by (simp add: dbl_div_def is_zero_def inf_of_sign_def)

lemma div_1_neg_zero: "dbl_div (Fin 1) Neg_Zero = NInf"
  by (simp add: dbl_div_def is_zero_def inf_of_sign_def)

lemma mul_PInf:
  "dbl_mul c PInf = (if is_nan c \<or> is_zero c then NaN else inf_of_sign (sign_bit c))"
  by (cases c) (simp_all add: dbl_mul_def is_zero_def)

lemma mul_NInf:
  "dbl_mul c NInf = (if is_nan c \<or> is_zero c then NaN else inf_of_sign (\<not> sign_bit c))"
  by (cases c) (simp_all add: dbl_mul_def is_zero_def)

lemma inf_or_nan_mul_PInf: "inf_or_nan (dbl_mul c PInf)"
  by (simp add: mul_PInf inf_or_nan_def inf_of_sign_def)

lemma inf_or_nan_mul_NInf: "inf_or_nan (dbl_mul c NInf)"
  by (simp add: mul_NInf inf_or_nan_def inf_of_sign_def)

text \<open>
  C7. In-place division of a vector by zero raises no error and yields infinities and
  NaNs: for every vector \<open>v\<close>, of whatever components, and for the zero of either sign,
  \<^verbatim>\<open>v /= 0\<close> returns a vector each of whose components is infinite or NaN. Dividing by
  the positive zero, a component that is a zero or a NaN becomes NaN and any other
  component becomes the infinity of its sign; (1, -2, 0) becomes (inf, -inf, NaN).
\<close>

theorem divide_assign_by_zero:
  "inf_or_nan (e0_d (operator_divide_assign_d v (Fin 0)))
   \<and> inf_or_nan (e1_d (operator_divide_assign_d v (Fin 0)))
   \<and> inf_or_nan (e2_d (operator_divide_assign_d v (Fin 0)))
   \<and> inf_or_nan (e0_d (operator_divide_assign_d v Neg_Zero))
   \<and> inf_or_nan (e1_d (operator_divide_assign_d v Neg_Zero))
   \<and> inf_or_nan (e2_d (operator_divide_assign_d v Neg_Zero))
   \<and> operator_divide_assign_d v (Fin 0) =
       vec3_new_d
         (if is_nan (e0_d v) \<or> is_zero (e0_d v) then NaN else inf_of_sign (sign_bit (e0_d v)))
         (if is_nan (e1_d v) \<or> is_zero (e1_d v) then NaN else inf_of_sign (sign_bit (e1_d v)))
         (if is_nan (e2_d v) \<or> is_zero (e2_d v) then NaN else inf_of_sign (sign_bit (e2_d v)))
   \<and> operator_divide_assign_d (vec3_new_d (Fin 1) (Fin (- 2)) (Fin 0)) (Fin 0) =
       vec3_new_d PInf NInf NaN"
proof -
  have pos: "operator_divide_assign_d v (Fin 0) =
      v\<lparr>e0_d := dbl_mul (e0_d v) PInf, e1_d := dbl_mul (e1_d v) PInf,
        e2_d := dbl_mul (e2_d v) PInf\<rparr>" for v
    by (simp add: operator_divide_assign_d_def operator_times_assign_d_def div_1_pos_zero)
  have neg: "operator_divide_assign_d v Neg_Zero =
      v\<lparr>e0_d := dbl_mul (e0_d v) NInf, e1_d := dbl_mul (e1_d v) NInf,
        e2_d := dbl_mul (e2_d v) NInf\<rparr>"
    by (simp add: operator_divide_assign_d_def operator_times_assign_d_def div_1_neg_zero)
  have "inf_or_nan (e0_d (operator_divide_assign_d v (Fin 0)))"
    and "inf_or_nan (e1_d (operator_divide_assign_d v (Fin 0)))"
    and "inf_or_nan (e2_d (operator_divide_assign_d v (Fin 0)))"
    by (simp_all add: pos inf_or_nan_mul_PInf)
  moreover have "inf_or_nan (e0_d (operator_divide_assign_d v Neg_Zero))"
    and "inf_or_nan (e1_d (operator_divide_assign_d v Neg_Zero))"
    and "inf_or_nan (e2_d (operator_divide_assign_d v Neg_Zero))"
    by (simp_all add: neg inf_or_nan_mul_NInf)
  moreover have "operator_divide_assign_d v (Fin 0) =
       vec3_new_d
         (if is_nan (e0_d v) \<or> is_zero (e0_d v) then NaN else inf_of_sign (sign_bit (e0_d v)))
         (if is_nan (e1_d v) \<or> is_zero (e1_d v) then NaN else inf_of_sign (sign_bit (e1_d v)))
         (if is_nan (e2_d v) \<or> is_zero (e2_d v) then NaN else inf_of_sign (sign_bit (e2_d v)))"
    by (simp add: pos mul_PInf vec3_new_d_def)
  moreover have "operator_divide_assign_d (vec3_new_d (Fin 1) (Fin (- 2)) (Fin 0)) (Fin 0) =
       vec3_new_d PInf NInf NaN"
    by (simp add: pos mul_PInf vec3_new_d_def is_zero_def inf_of_sign_def)
  ultimately show ?thesis
    by blast
qed

end
